theory Spec2Isabelle
  imports Main
begin

section \<open>JavaScript values and strings\<close>

text \<open>
  The server is TypeScript. Values of type \<open>any\<close> that reach the handlers are parsed JSON
  plus \<open>undefined\<close> (the value of a missing property). Numbers are the integer-valued
  ones; an object is the list of its own properties in \<open>Object.keys\<close> order. A string is
  a list of code units below 256.
\<close>

datatype jsval =
    JUndefined
  | JNull
  | JBool bool
  | JNum int
  | JStr string
  | JArr "jsval list"
  | JObj "(string \<times> jsval) list"

text \<open>Truthiness, as tested by \<open>!v\<close>, \<open>v || d\<close> and \<open>if (v)\<close>.\<close>

fun truthy :: "jsval \<Rightarrow> bool" where
  "truthy JUndefined = False"
| "truthy JNull = False"
| "truthy (JBool b) = b"
| "truthy (JNum n) = (n \<noteq> 0)"
| "truthy (JStr s) = (s \<noteq> [])"
| "truthy (JArr xs) = True"
| "truthy (JObj kvs) = True"

text \<open>\<open>a || b\<close> on values.\<close>

definition js_or :: "jsval \<Rightarrow> jsval \<Rightarrow> jsval" where
  "js_or a b = (if truthy a then a else b)"

text \<open>
  Property read \<open>v.k\<close> (or \<open>v?.k\<close>) on a value that is not null or undefined: an own
  property of an object, \<open>undefined\<close> otherwise. The handlers read only the names
  \<open>_id\<close>, \<open>_index\<close>, \<open>status\<close>, \<open>error\<close>, \<open>result\<close>, \<open>type\<close> and \<open>reason\<close>,
  none of which a string, number, boolean or array has.
\<close>

definition get_prop :: "jsval \<Rightarrow> string \<Rightarrow> jsval" where
  "get_prop v k =
     (case v of
        JObj kvs \<Rightarrow> (case map_of kvs k of Some x \<Rightarrow> x | None \<Rightarrow> JUndefined)
      | _ \<Rightarrow> JUndefined)"

text \<open>
  Decimal rendering of numbers inside template literals. It is the JavaScript rendering
  for integers of magnitude below \<open>10^21\<close>; from there on JavaScript switches to
  exponent form, which is not modelled.
\<close>

definition digit_char :: "nat \<Rightarrow> char" where
  "digit_char d =
     (if d = 0 then CHR ''0'' else if d = 1 then CHR ''1'' else if d = 2 then CHR ''2''
      else if d = 3 then CHR ''3'' else if d = 4 then CHR ''4'' else if d = 5 then CHR ''5''
      else if d = 6 then CHR ''6'' else if d = 7 then CHR ''7'' else if d = 8 then CHR ''8''
      else CHR ''9'')"

fun show_nat :: "nat \<Rightarrow> string" where
  "show_nat n = (if n < 10 then [digit_char n] else show_nat (n div 10) @ [digit_char (n mod 10)])"

declare show_nat.simps [simp del]

definition show_int :: "int \<Rightarrow> string" where
  "show_int i = (if i < 0 then CHR ''-'' # show_nat (nat (- i)) else show_nat (nat i))"

text \<open>
  String conversion of a value inside a template literal (\<open>String(v)\<close>): an array joins
  its elements with commas, rendering null and undefined elements as the empty string; an
  object is \<open>[object Object]\<close>.
\<close>

fun join_with :: "string \<Rightarrow> string list \<Rightarrow> string" where
  "join_with sep [] = []"
| "join_with sep [x] = x"
| "join_with sep (x # y # ys) = x @ sep @ join_with sep (y # ys)"

fun js_to_string :: "jsval \<Rightarrow> string" where
  "js_to_string JUndefined = ''undefined''"
| "js_to_string JNull = ''null''"
| "js_to_string (JBool b) = (if b then ''true'' else ''false'')"
| "js_to_string (JNum n) = show_int n"
| "js_to_string (JStr s) = s"
| "js_to_string (JArr xs) =
     join_with '','' (map (\<lambda>x. if x = JUndefined \<or> x = JNull then [] else js_to_string x) xs)"
| "js_to_string (JObj kvs) = ''[object Object]''"

text \<open>\<open>String.prototype.trim\<close> on code units below 256.\<close>

definition is_js_whitespace :: "char \<Rightarrow> bool" where
  "is_js_whitespace c = (of_char c \<in> {9, 10, 11, 12, 13, 32, 160 :: nat})"

definition js_trim :: "string \<Rightarrow> string" where
  "js_trim s = rev (dropWhile is_js_whitespace (rev (dropWhile is_js_whitespace s)))"

section \<open>Configuration validation (ConfigSchema)\<close>

record ElasticsearchConfig =
  url :: string
  apiKey :: "string option"
  username :: "string option"
  password :: "string option"
  caCert :: "string option"
  pathPrefix :: "string option"
  version :: "string option"
  sslSkipVerify :: "bool option"

text \<open>The cross-field check passed to \<open>.refine\<close>; \<open>x != null\<close> is \<open>x \<noteq> None\<close>.\<close>

definition ConfigSchema_refine :: "ElasticsearchConfig \<Rightarrow> bool" where
  "ConfigSchema_refine data =
     (if apiKey data \<noteq> None then True
      else if username data \<noteq> None then password data \<noteq> None
      else True)"

text \<open>The \<open>version\<close> transform: \<open>["8", "9"].includes(val || "") ? val : "8"\<close>.\<close>

definition version_transform :: "string option \<Rightarrow> string option" where
  "version_transform val =
     (if (case val of None \<Rightarrow> [] | Some v \<Rightarrow> (if v = [] then [] else v)) \<in> set [''8'', ''9'']
      then val else Some ''8'')"

text \<open>
  \<open>ConfigSchema.parse\<close>: \<open>None\<close> is the thrown validation error. The url is trimmed and
  must then be non-empty; the refinement must hold.
\<close>

definition ConfigSchema_parse :: "ElasticsearchConfig \<Rightarrow> ElasticsearchConfig option" where
  "ConfigSchema_parse config =
     (let u = js_trim (url config) in
      if length u \<ge> 1 \<and> ConfigSchema_refine config
      then Some (config\<lparr>url := u, version := version_transform (version config)\<rparr>)
      else None)"

definition ConfigSchema_accepts :: "ElasticsearchConfig \<Rightarrow> bool" where
  "ConfigSchema_accepts config = (ConfigSchema_parse config \<noteq> None)"

section \<open>Response envelopes and thrown values\<close>

record TextContent =
  c_type :: string
  c_text :: string

record ResponseContent =
  content :: "TextContent list"

text \<open>
  A thrown value is an \<open>Error\<close> instance with its message, or any other value. The catch
  blocks render it as \<open>error instanceof Error ? error.message : String(error)\<close>.
\<close>

datatype thrown = ErrorInstance string | NonError jsval

definition error_message :: "thrown \<Rightarrow> string" where
  "error_message e = (case e of ErrorInstance m \<Rightarrow> m | NonError v \<Rightarrow> js_to_string v)"

text \<open>The sixteen tools registered with \<open>server.tool\<close>, in registration order.\<close>

datatype tool =
    list_indices | get_mappings | search | get_cluster_health | get_shards
  | add_document | update_document | delete_document
  | update_by_query | delete_by_query | bulk
  | create_index | delete_index | count_documents | get_templates | get_aliases

definition all_tools :: "tool list" where
  "all_tools =
     [list_indices, get_mappings, search, get_cluster_health, get_shards,
      add_document, update_document, delete_document,
      update_by_query, delete_by_query, bulk,
      create_index, delete_index, count_documents, get_templates, get_aliases]"

definition text_response :: "string \<Rightarrow> ResponseContent" where
  "text_response s = \<lparr>content = [\<lparr>c_type = ''text'', c_text = s\<rparr>]\<rparr>"

text \<open>The envelope each handler's \<open>catch (error)\<close> block returns.\<close>

fun catch_response :: "tool \<Rightarrow> thrown \<Rightarrow> ResponseContent" where
  "catch_response list_indices e = text_response (''Error: '' @ error_message e)"
| "catch_response get_mappings e = text_response (''Error: '' @ error_message e)"
| "catch_response search e = text_response (''Error: '' @ error_message e)"
| "catch_response get_cluster_health e = text_response (''Error: '' @ error_message e)"
| "catch_response get_shards e = text_response (''Error: '' @ error_message e)"
| "catch_response add_document e = text_response (''Error adding document: '' @ error_message e)"
| "catch_response update_document e =
     text_response (''Error updating document: '' @ error_message e)"
| "catch_response delete_document e =
     text_response (''Error deleting document: '' @ error_message e)"
| "catch_response update_by_query e = text_response (''Error: '' @ error_message e)"
| "catch_response delete_by_query e = text_response (''Error: '' @ error_message e)"
| "catch_response bulk e = text_response (''Error: '' @ error_message e)"
| "catch_response create_index e = text_response (''Error: '' @ error_message e)"
| "catch_response delete_index e = text_response (''Error: '' @ error_message e)"
| "catch_response count_documents e = text_response (''Error: '' @ error_message e)"
| "catch_response get_templates e = text_response (''Error: '' @ error_message e)"
| "catch_response get_aliases e = text_response (''Error: '' @ error_message e)"

text \<open>What the catch block writes with \<open>console.error\<close> (three handlers write nothing).\<close>

fun catch_console :: "tool \<Rightarrow> thrown \<Rightarrow> string list" where
  "catch_console list_indices e = [''Failed to list indices: '' @ error_message e]"
| "catch_console get_mappings e = [''Failed to get mappings: '' @ error_message e]"
| "catch_console search e = [''Search failed: '' @ error_message e]"
| "catch_console get_cluster_health e = [''Failed to get cluster health: '' @ error_message e]"
| "catch_console get_shards e = [''Failed to get shard information: '' @ error_message e]"
| "catch_console add_document e = []"
| "catch_console update_document e = []"
| "catch_console delete_document e = []"
| "catch_console update_by_query e = [''Update by query failed: '' @ error_message e]"
| "catch_console delete_by_query e = [''Delete by query failed: '' @ error_message e]"
| "catch_console bulk e = [''Bulk operation failed: '' @ error_message e]"
| "catch_console create_index e = [''Failed to create index: '' @ error_message e]"
| "catch_console delete_index e = [''Failed to delete index: '' @ error_message e]"
| "catch_console count_documents e = [''Failed to count documents: '' @ error_message e]"
| "catch_console get_templates e = [''Failed to get templates: '' @ error_message e]"
| "catch_console get_aliases e = [''Failed to get aliases: '' @ error_message e]"

text \<open>
  The result of running a handler: the requests it sent to the store client, the lines
  it wrote to the console, and the envelope it returned.
\<close>

record 'req handler_result =
  calls :: "'req list"
  console :: "string list"
  envelope :: ResponseContent

text \<open>
  Every handler is \<open>async (args) => { try { BODY } catch (error) { CATCH } }\<close>. The
  outcome of BODY is the requests it sent and either the thrown value or the envelope it
  returned.
\<close>

definition try_catch :: "tool \<Rightarrow> 'req list \<times> (thrown + ResponseContent) \<Rightarrow> 'req handler_result" where
  "try_catch t body =
     (case snd body of
        Inr r \<Rightarrow> \<lparr>calls = fst body, console = [], envelope = r\<rparr>
      | Inl e \<Rightarrow> \<lparr>calls = fst body, console = catch_console t e, envelope = catch_response t e\<rparr>)"

section \<open>The bulk tool\<close>

datatype bulk_action = Index | Create | Update | Delete

definition action_name :: "bulk_action \<Rightarrow> string" where
  "action_name a =
     (case a of Index \<Rightarrow> ''index'' | Create \<Rightarrow> ''create'' | Update \<Rightarrow> ''update''
      | Delete \<Rightarrow> ''delete'')"

text \<open>One element of the \<open>operations\<close> argument, after schema validation.\<close>

record bulk_op =
  op_action :: bulk_action
  op_index :: string
  op_id :: "string option"
  op_document :: "(string \<times> jsval) list option"

record bulk_args =
  operations :: "bulk_op list"
  pipeline :: "string option"

text \<open>An optional string or record as a value: absent is \<open>undefined\<close>.\<close>

definition string_val :: "string option \<Rightarrow> jsval" where
  "string_val s = (case s of None \<Rightarrow> JUndefined | Some x \<Rightarrow> JStr x)"

definition record_val :: "(string \<times> jsval) list option \<Rightarrow> jsval" where
  "record_val d = (case d of None \<Rightarrow> JUndefined | Some kvs \<Rightarrow> JObj kvs)"

text \<open>
  The validation loop \<open>operations.forEach((op, idx) => ...)\<close>: the first \<open>throw\<close> ends
  it. \<open>!op.id\<close> holds for an absent and for an empty id.
\<close>

fun validate_operations :: "nat \<Rightarrow> bulk_op list \<Rightarrow> thrown option" where
  "validate_operations idx [] = None"
| "validate_operations idx (opn # ops) =
     (if (op_action opn = Update \<or> op_action opn = Delete) \<and> \<not> truthy (string_val (op_id opn))
      then Some (ErrorInstance (''Operation #'' @ show_nat (idx + 1) @ '' ('' @
                   action_name (op_action opn) @ ''): Document ID is required''))
      else if (op_action opn = Index \<or> op_action opn = Create \<or> op_action opn = Update)
              \<and> \<not> truthy (record_val (op_document opn))
      then Some (ErrorInstance (''Operation #'' @ show_nat (idx + 1) @ '' ('' @
                   action_name (op_action opn) @ ''): Document body is required''))
      else validate_operations (idx + 1) ops)"

text \<open>\<open>actionMeta\<close>: \<open>{ _index: op.index }\<close>, with \<open>_id\<close> added when \<open>op.id\<close> is truthy.\<close>

definition actionMeta :: "bulk_op \<Rightarrow> jsval" where
  "actionMeta opn =
     JObj ((''_index'', JStr (op_index opn)) #
           (if truthy (string_val (op_id opn)) then [(''_id'', string_val (op_id opn))] else []))"

text \<open>What one pass of the building loop pushes onto \<open>bulkOperations\<close>.\<close>

definition op_entries :: "bulk_op \<Rightarrow> jsval list" where
  "op_entries opn =
     [JObj [(action_name (op_action opn), actionMeta opn)]] @
     (if op_action opn \<noteq> Delete
      then (if op_action opn = Update
            then [JObj [(''doc'', record_val (op_document opn))]]
            else [record_val (op_document opn)])
      else [])"

text \<open>The building loop: \<open>bulkOperations\<close> starts empty and grows by \<open>push\<close>.\<close>

fun build_bulkOperations :: "jsval list \<Rightarrow> bulk_op list \<Rightarrow> jsval list" where
  "build_bulkOperations bulkOperations [] = bulkOperations"
| "build_bulkOperations bulkOperations (opn # ops) =
     build_bulkOperations (bulkOperations @ op_entries opn) ops"

text \<open>\<open>ElasticsearchService.bulk\<close>: the request handed to \<open>client.bulk\<close>.\<close>

definition ElasticsearchService_bulk :: "jsval list \<Rightarrow> string option \<Rightarrow> jsval" where
  "ElasticsearchService_bulk ops pl =
     JObj [(''refresh'', JBool True), (''pipeline'', string_val pl), (''operations'', JArr ops)]"

text \<open>The store's response at its declared type \<open>BulkOperationResult\<close>.\<close>

record BulkOperationResult =
  bulk_took :: int
  bulk_errors :: bool
  bulk_items :: "(string \<times> jsval) list list"

text \<open>An entry of \<open>summary.actionResults\<close>; \<open>ar_error\<close> holds \<open>(type, reason)\<close>.\<close>

record action_result =
  ar_operation :: nat
  ar_action :: string
  ar_id :: jsval
  ar_index :: jsval
  ar_status :: jsval
  ar_error :: "(jsval \<times> jsval) option"
  ar_result :: "jsval option"

record bulk_summary =
  took :: int
  errors :: bool
  successes :: nat
  failures :: nat
  actionResults :: "action_result list"

text \<open>
  \<open>Object.keys(item)[0]\<close> and \<open>item[actionType]\<close>; with no key, \<open>actionType\<close> is
  \<open>undefined\<close> and the read is of the property named \<open>undefined\<close>.
\<close>

definition item_actionType :: "(string \<times> jsval) list \<Rightarrow> string option" where
  "item_actionType item = (case item of [] \<Rightarrow> None | kv # _ \<Rightarrow> Some (fst kv))"

definition item_result :: "(string \<times> jsval) list \<Rightarrow> jsval" where
  "item_result item =
     (case item_actionType item of
        None \<Rightarrow> get_prop (JObj item) ''undefined''
      | Some k \<Rightarrow> get_prop (JObj item) k)"

text \<open>The body of \<open>response.items.forEach((item, idx) => ...)\<close>.\<close>

definition summarize_item :: "bulk_summary \<Rightarrow> (string \<times> jsval) list \<Rightarrow> nat \<Rightarrow> bulk_summary" where
  "summarize_item summary item idx =
     (let result = item_result item in
      if \<not> truthy result then summary
      else case item_actionType item of
        None \<Rightarrow> summary
      | Some actionType \<Rightarrow>
         (if truthy (get_prop result ''error'')
          then summary
            \<lparr>failures := failures summary + 1,
             actionResults := actionResults summary @
               [\<lparr>ar_operation = idx, ar_action = actionType,
                 ar_id = js_or (get_prop result ''_id'') (JStr ''unknown''),
                 ar_index = js_or (get_prop result ''_index'') (JStr ''unknown''),
                 ar_status = js_or (get_prop result ''status'') (JNum 0),
                 ar_error = Some
                   (js_or (get_prop (get_prop result ''error'') ''type'') (JStr ''unknown_error''),
                    js_or (get_prop (get_prop result ''error'') ''reason'') (JStr ''Unknown error'')),
                 ar_result = None\<rparr>]\<rparr>
          else summary
            \<lparr>successes := successes summary + 1,
             actionResults := actionResults summary @
               [\<lparr>ar_operation = idx, ar_action = actionType,
                 ar_id = js_or (get_prop result ''_id'') (JStr ''unknown''),
                 ar_index = js_or (get_prop result ''_index'') (JStr ''unknown''),
                 ar_status = js_or (get_prop result ''status'') (JNum 0),
                 ar_error = None,
                 ar_result = Some (js_or (get_prop result ''result'') (JStr ''unknown''))\<rparr>]\<rparr>))"

fun summarize_items :: "bulk_summary \<Rightarrow> nat \<Rightarrow> (string \<times> jsval) list list \<Rightarrow> bulk_summary" where
  "summarize_items summary idx [] = summary"
| "summarize_items summary idx (item # items) =
     summarize_items (summarize_item summary item idx) (idx + 1) items"

definition summarize :: "BulkOperationResult \<Rightarrow> bulk_summary" where
  "summarize response =
     summarize_items
       \<lparr>took = bulk_took response, errors = bulk_errors response, successes = 0, failures = 0,
        actionResults = []\<rparr>
       0 (bulk_items response)"

text \<open>
  A loop \<open>xs.forEach((x, idx) => { resultText += line(idx, x) })\<close> over the text built
  so far.
\<close>

fun forEach_append :: "(nat \<Rightarrow> 'a \<Rightarrow> string) \<Rightarrow> nat \<Rightarrow> 'a list \<Rightarrow> string \<Rightarrow> string" where
  "forEach_append line idx [] resultText = resultText"
| "forEach_append line idx (x # xs) resultText =
     forEach_append line (idx + 1) xs (resultText @ line idx x)"

text \<open>
  One failure line of the bulk report. The list it runs over was filtered by
  \<open>r.error\<close>, so every entry has its error pair.
\<close>

definition bulk_failure_line :: "nat \<Rightarrow> action_result \<Rightarrow> string" where
  "bulk_failure_line idx failure =
     show_nat (idx + 1) @ ''. Operation #'' @ show_nat (ar_operation failure) @ '' ('' @
     ar_action failure @ ''): '' @
     js_to_string (case ar_error failure of Some er \<Rightarrow> snd er | None \<Rightarrow> JUndefined) @ '' ['' @
     js_to_string (case ar_error failure of Some er \<Rightarrow> fst er | None \<Rightarrow> JUndefined) @
     '']\<newline>''"

text \<open>The four summary lines every bulk report starts with.\<close>

definition bulk_head :: "nat \<Rightarrow> bulk_summary \<Rightarrow> string" where
  "bulk_head operations_length summary =
     ''Bulk operation completed in '' @ show_int (took summary) @ ''ms\<newline>'' @
     ''- Total operations: '' @ show_nat operations_length @ ''\<newline>'' @
     ''- Successful: '' @ show_nat (successes summary) @ ''\<newline>'' @
     ''- Failed: '' @ show_nat (failures summary) @ ''\<newline>''"

definition bulk_resultText :: "nat \<Rightarrow> bulk_summary \<Rightarrow> string" where
  "bulk_resultText operations_length summary =
     (let resultText = bulk_head operations_length summary
      in if failures summary > 0
         then (let failures = filter (\<lambda>r. ar_error r \<noteq> None) (actionResults summary);
                   resultText' =
                     forEach_append bulk_failure_line 0 (take 5 failures)
                       (resultText @ ''\<newline>Failures:\<newline>'')
               in if length failures > 5
                  then resultText' @ ''...and '' @ show_nat (length failures - 5) @
                       '' more failures.\<newline>''
                  else resultText')
         else resultText)"

text \<open>
  The body of the bulk handler's \<open>try\<close>: validate, build the wire sequence, call the
  store through \<open>esService.bulk\<close>, summarise and render.
\<close>

definition bulk_body ::
  "bulk_args \<Rightarrow> (jsval \<Rightarrow> thrown + BulkOperationResult) \<Rightarrow> jsval list \<times> (thrown + ResponseContent)"
where
  "bulk_body args client =
     (case validate_operations 0 (operations args) of
        Some e \<Rightarrow> ([], Inl e)
      | None \<Rightarrow>
         (let bulkOperations = build_bulkOperations [] (operations args);
              request = ElasticsearchService_bulk bulkOperations (pipeline args)
          in case client request of
               Inl e \<Rightarrow> ([request], Inl e)
             | Inr response \<Rightarrow>
                 ([request],
                  Inr (text_response
                         (bulk_resultText (length (operations args)) (summarize response))))))"

definition bulk_handler ::
  "bulk_args \<Rightarrow> (jsval \<Rightarrow> thrown + BulkOperationResult) \<Rightarrow> jsval handler_result"
where
  "bulk_handler args client = try_catch bulk (bulk_body args client)"

section \<open>The query-scoped mutation tools\<close>

text \<open>The store's response at its declared type \<open>UpdateByQueryResult\<close>.\<close>

record failure_cause =
  cause_type :: "string option"
  cause_reason :: "string option"

record query_failure =
  failure_id :: "string option"
  failure_cause :: "failure_cause option"

record UpdateByQueryResult =
  r_took :: int
  r_total :: int
  r_updated :: int
  r_deleted :: "int option"
  r_failures :: "query_failure list option"
  r_version_conflicts :: "int option"
  r_task :: "string option"

record script_arg =
  script_source :: string
  script_params :: "(string \<times> jsval) list option"

datatype conflicts = Abort | Proceed

definition conflicts_name :: "conflicts \<Rightarrow> string" where
  "conflicts_name c = (case c of Abort \<Rightarrow> ''abort'' | Proceed \<Rightarrow> ''proceed'')"

definition num_val :: "int option \<Rightarrow> jsval" where
  "num_val n = (case n of None \<Rightarrow> JUndefined | Some x \<Rightarrow> JNum x)"

definition conflicts_val :: "conflicts option \<Rightarrow> jsval" where
  "conflicts_val c = (case c of None \<Rightarrow> JUndefined | Some x \<Rightarrow> JStr (conflicts_name x))"

text \<open>The schema \<open>z.boolean().optional().default(true)\<close> of the \<open>refresh\<close> argument.\<close>

definition refresh_schema :: "bool option \<Rightarrow> bool" where
  "refresh_schema r = (case r of None \<Rightarrow> True | Some b \<Rightarrow> b)"

text \<open>Handler arguments after schema validation.\<close>

record update_by_query_args =
  ubq_index :: string
  ubq_query :: "(string \<times> jsval) list"
  ubq_script :: script_arg
  ubq_conflicts :: "conflicts option"
  ubq_maxDocs :: "int option"
  ubq_refresh :: bool

record delete_by_query_args =
  dbq_index :: string
  dbq_query :: "(string \<times> jsval) list"
  dbq_conflicts :: "conflicts option"
  dbq_maxDocs :: "int option"
  dbq_refresh :: bool

text \<open>The \<open>params\<close> object each handler builds for the store.\<close>

definition update_by_query_params :: "update_by_query_args \<Rightarrow> jsval" where
  "update_by_query_params args =
     JObj ([(''index'', JStr (ubq_index args)),
            (''body'', JObj [(''query'', JObj (ubq_query args)),
                             (''script'', JObj [(''source'', JStr (script_source (ubq_script args))),
                                                (''params'', record_val (script_params (ubq_script args)))])]),
            (''refresh'', JBool (ubq_refresh args \<noteq> False))] @
           (if truthy (conflicts_val (ubq_conflicts args))
            then [(''conflicts'', conflicts_val (ubq_conflicts args))] else []) @
           (if truthy (num_val (ubq_maxDocs args))
            then [(''max_docs'', num_val (ubq_maxDocs args))] else []))"

definition delete_by_query_params :: "delete_by_query_args \<Rightarrow> jsval" where
  "delete_by_query_params args =
     JObj ([(''index'', JStr (dbq_index args)),
            (''body'', JObj [(''query'', JObj (dbq_query args))]),
            (''refresh'', JBool (dbq_refresh args \<noteq> False))] @
           (if truthy (conflicts_val (dbq_conflicts args))
            then [(''conflicts'', conflicts_val (dbq_conflicts args))] else []) @
           (if truthy (num_val (dbq_maxDocs args))
            then [(''max_docs'', num_val (dbq_maxDocs args))] else []))"

text \<open>
  Optional strings of the response inside a template literal (\<open>${v}\<close>) and under
  \<open>v || d\<close>.
\<close>

definition string_or :: "string option \<Rightarrow> string \<Rightarrow> string" where
  "string_or v d = js_to_string (js_or (string_val v) (JStr d))"

text \<open>\<open>failure.cause?.reason\<close>.\<close>

definition failure_reason :: "query_failure \<Rightarrow> string option" where
  "failure_reason failure =
     (case failure_cause failure of None \<Rightarrow> None | Some c \<Rightarrow> cause_reason c)"

definition update_failure_line :: "nat \<Rightarrow> query_failure \<Rightarrow> string" where
  "update_failure_line idx failure =
     ''\<newline>'' @ show_nat (idx + 1) @ ''. ID: '' @ js_to_string (string_val (failure_id failure)) @
     '', Reason: '' @ string_or (failure_reason failure) ''Unknown''"

definition delete_failure_line :: "nat \<Rightarrow> query_failure \<Rightarrow> string" where
  "delete_failure_line idx failure =
     ''\<newline>'' @ show_nat (idx + 1) @ ''. ID: '' @ string_or (failure_id failure) ''unknown'' @
     '', Reason: '' @ string_or (failure_reason failure) ''Unknown''"

text \<open>\<open>response.failures?.length || 0\<close>.\<close>

definition failures_length :: "UpdateByQueryResult \<Rightarrow> nat" where
  "failures_length response =
     (case r_failures response of None \<Rightarrow> 0 | Some fs \<Rightarrow> length fs)"

text \<open>
  The block guarded by \<open>response.failures && response.failures.length > 0\<close>, shared in
  shape by both handlers.
\<close>

definition append_failures ::
  "(nat \<Rightarrow> query_failure \<Rightarrow> string) \<Rightarrow> query_failure list option \<Rightarrow> string \<Rightarrow> string"
where
  "append_failures line response_failures resultText =
     (case response_failures of
        None \<Rightarrow> resultText
      | Some fs \<Rightarrow>
         (if length fs > 0
          then (let resultText' =
                      forEach_append line 0 (take 5 fs) (resultText @ ''\<newline>\<newline>Failures:'')
                in if length fs > 5
                   then resultText' @ ''\<newline>...and '' @ show_nat (length fs - 5) @
                        '' more failures.''
                   else resultText')
          else resultText))"

text \<open>The report text built before the failure block is reached.\<close>

definition update_by_query_head :: "string \<Rightarrow> UpdateByQueryResult \<Rightarrow> string" where
  "update_by_query_head index response =
     ''Update by query completed successfully in index '' @ [CHR 0x27] @ index @ [CHR 0x27] @
     '':\<newline>'' @
     ''- Total documents processed: '' @ show_int (r_total response) @ ''\<newline>'' @
     ''- Documents updated: '' @ show_int (r_updated response) @ ''\<newline>'' @
     ''- Documents that failed: '' @ show_nat (failures_length response) @ ''\<newline>'' @
     ''- Time taken: '' @ show_int (r_took response) @ ''ms''"

definition update_by_query_resultText :: "string \<Rightarrow> UpdateByQueryResult \<Rightarrow> string" where
  "update_by_query_resultText index response =
     append_failures update_failure_line (r_failures response)
       (update_by_query_head index response)"

definition delete_by_query_head :: "string \<Rightarrow> UpdateByQueryResult \<Rightarrow> string" where
  "delete_by_query_head index response =
     (let resultText =
            ''Delete by query completed successfully in index '' @ [CHR 0x27] @ index @
            [CHR 0x27] @ '':\<newline>'' @
            ''- Total documents processed: '' @ show_int (r_total response) @ ''\<newline>'' @
            ''- Documents deleted: '' @ js_to_string (num_val (r_deleted response)) @ ''\<newline>'' @
            ''- Deletion failures: '' @ show_nat (failures_length response) @ ''\<newline>'' @
            ''- Time taken: '' @ show_int (r_took response) @ ''ms''
      in if truthy (num_val (r_version_conflicts response)) \<and>
            (case r_version_conflicts response of None \<Rightarrow> False | Some n \<Rightarrow> n > 0)
         then resultText @ ''\<newline>- Version conflicts: '' @
              js_to_string (num_val (r_version_conflicts response))
         else resultText)"

definition delete_by_query_resultText :: "string \<Rightarrow> UpdateByQueryResult \<Rightarrow> string" where
  "delete_by_query_resultText index response =
     append_failures delete_failure_line (r_failures response)
       (delete_by_query_head index response)"

definition update_by_query_body ::
  "update_by_query_args \<Rightarrow> (jsval \<Rightarrow> thrown + UpdateByQueryResult) \<Rightarrow>
   jsval list \<times> (thrown + ResponseContent)"
where
  "update_by_query_body args client =
     (let params = update_by_query_params args
      in case client params of
           Inl e \<Rightarrow> ([params], Inl e)
         | Inr response \<Rightarrow>
             ([params], Inr (text_response (update_by_query_resultText (ubq_index args) response))))"

definition update_by_query_handler ::
  "update_by_query_args \<Rightarrow> (jsval \<Rightarrow> thrown + UpdateByQueryResult) \<Rightarrow> jsval handler_result"
where
  "update_by_query_handler args client =
     try_catch update_by_query (update_by_query_body args client)"

definition delete_by_query_body ::
  "delete_by_query_args \<Rightarrow> (jsval \<Rightarrow> thrown + UpdateByQueryResult) \<Rightarrow>
   jsval list \<times> (thrown + ResponseContent)"
where
  "delete_by_query_body args client =
     (let params = delete_by_query_params args
      in case client params of
           Inl e \<Rightarrow> ([params], Inl e)
         | Inr response \<Rightarrow>
             ([params], Inr (text_response (delete_by_query_resultText (dbq_index args) response))))"

definition delete_by_query_handler ::
  "delete_by_query_args \<Rightarrow> (jsval \<Rightarrow> thrown + UpdateByQueryResult) \<Rightarrow> jsval handler_result"
where
  "delete_by_query_handler args client =
     try_catch delete_by_query (delete_by_query_body args client)"

section \<open>The single-document tools\<close>

text \<open>
  Reading a property of a value of type \<open>any\<close>: on null and undefined the read throws a
  TypeError (the message is the engine's).
\<close>

definition read_prop :: "jsval \<Rightarrow> string \<Rightarrow> thrown + jsval" where
  "read_prop v k =
     (if v = JUndefined \<or> v = JNull
      then Inl (ErrorInstance (''Cannot read properties of '' @ js_to_string v @ '' (reading '' @
                  [CHR 0x27] @ k @ [CHR 0x27] @ '')''))
      else Inr (get_prop v k))"

text \<open>\<open>ElasticsearchService.addDocument\<close>: the request handed to \<open>client.index\<close>.\<close>

definition ElasticsearchService_addDocument ::
  "string \<Rightarrow> (string \<times> jsval) list \<Rightarrow> string option \<Rightarrow> jsval"
where
  "ElasticsearchService_addDocument index document ident =
     JObj ([(''index'', JStr index), (''document'', JObj document)] @
           (if truthy (string_val ident) then [(''id'', string_val ident)] else []))"

definition ElasticsearchService_updateDocument ::
  "string \<Rightarrow> string \<Rightarrow> (string \<times> jsval) list \<Rightarrow> jsval"
where
  "ElasticsearchService_updateDocument index ident document =
     JObj [(''index'', JStr index), (''id'', JStr ident), (''doc'', JObj document)]"

definition ElasticsearchService_deleteDocument :: "string \<Rightarrow> string \<Rightarrow> jsval" where
  "ElasticsearchService_deleteDocument index ident =
     JObj [(''index'', JStr index), (''id'', JStr ident)]"

record add_document_args =
  add_index :: string
  add_id :: "string option"
  add_document_body :: "(string \<times> jsval) list"

record update_document_args =
  upd_index :: string
  upd_id :: string
  upd_document :: "(string \<times> jsval) list"

record delete_document_args =
  del_index :: string
  del_id :: string

definition add_document_body_run ::
  "add_document_args \<Rightarrow> (jsval \<Rightarrow> thrown + jsval) \<Rightarrow> jsval list \<times> (thrown + ResponseContent)"
where
  "add_document_body_run args client =
     (let request =
            ElasticsearchService_addDocument (add_index args) (add_document_body args) (add_id args)
      in case client request of
           Inl e \<Rightarrow> ([request], Inl e)
         | Inr response \<Rightarrow>
             (case read_prop response ''_id'' of
                Inl e \<Rightarrow> ([request], Inl e)
              | Inr ident \<Rightarrow>
                  ([request],
                   Inr (text_response
                          (''Document added to index '' @ [CHR 0x27] @ add_index args @ [CHR 0x27] @
                           '' with ID: '' @ js_to_string ident)))))"

definition add_document_handler ::
  "add_document_args \<Rightarrow> (jsval \<Rightarrow> thrown + jsval) \<Rightarrow> jsval handler_result"
where
  "add_document_handler args client = try_catch add_document (add_document_body_run args client)"

definition update_document_handler ::
  "update_document_args \<Rightarrow> (jsval \<Rightarrow> thrown + jsval) \<Rightarrow> jsval handler_result"
where
  "update_document_handler args client =
     try_catch update_document
       (let request =
              ElasticsearchService_updateDocument (upd_index args) (upd_id args) (upd_document args)
        in case client request of
             Inl e \<Rightarrow> ([request], Inl e)
           | Inr response \<Rightarrow>
               ([request],
                Inr (text_response
                       (''Document with ID '' @ [CHR 0x27] @ upd_id args @ [CHR 0x27] @
                        '' updated in index '' @ [CHR 0x27] @ upd_index args @ [CHR 0x27] @ ''.''))))"

definition delete_document_handler ::
  "delete_document_args \<Rightarrow> (jsval \<Rightarrow> thrown + jsval) \<Rightarrow> jsval handler_result"
where
  "delete_document_handler args client =
     try_catch delete_document
       (let request = ElasticsearchService_deleteDocument (del_index args) (del_id args)
        in case client request of
             Inl e \<Rightarrow> ([request], Inl e)
           | Inr response \<Rightarrow>
               ([request],
                Inr (text_response
                       (''Document with ID '' @ [CHR 0x27] @ del_id args @ [CHR 0x27] @
                        '' deleted from index '' @ [CHR 0x27] @ del_index args @ [CHR 0x27] @ ''.''))))"

section \<open>Store clients and predicates used in the statements\<close>

text \<open>A store client whose call throws \<open>e\<close>, and one that answers \<open>r\<close>.\<close>

definition failing_client :: "thrown \<Rightarrow> jsval \<Rightarrow> thrown + 'a" where
  "failing_client e request = Inl e"

definition answering_client :: "'a \<Rightarrow> jsval \<Rightarrow> thrown + 'a" where
  "answering_client r request = Inr r"

text \<open>
  The three auth shapes as the specification words them: the api key alone, username
  and password together, or none of the three.
\<close>

definition claimed_auth_shape :: "ElasticsearchConfig \<Rightarrow> bool" where
  "claimed_auth_shape data =
     ((apiKey data \<noteq> None \<and> username data = None \<and> password data = None)
      \<or> (apiKey data = None \<and> username data \<noteq> None \<and> password data \<noteq> None)
      \<or> (apiKey data = None \<and> username data = None \<and> password data = None))"

text \<open>An item of the store's bulk response that the summarising loop does not skip.\<close>

definition has_result :: "(string \<times> jsval) list \<Rightarrow> bool" where
  "has_result item = truthy (item_result item)"

text \<open>
  The two ways a bulk operation is invalid. An id is missing when \<open>!op.id\<close> holds, that
  is when it is absent or empty.
\<close>

definition missing_id :: "bulk_op \<Rightarrow> bool" where
  "missing_id opn =
     ((op_action opn = Update \<or> op_action opn = Delete) \<and>
      (op_id opn = None \<or> op_id opn = Some []))"

definition missing_document :: "bulk_op \<Rightarrow> bool" where
  "missing_document opn =
     ((op_action opn = Index \<or> op_action opn = Create \<or> op_action opn = Update) \<and>
      op_document opn = None)"

definition invalid_op :: "bulk_op \<Rightarrow> bool" where
  "invalid_op opn = (missing_id opn \<or> missing_document opn)"

text \<open>The message for the operation at 0-based position \<open>k\<close>.\<close>

definition rejection_message :: "nat \<Rightarrow> bulk_op \<Rightarrow> string" where
  "rejection_message k opn =
     ''Operation #'' @ show_nat (k + 1) @ '' ('' @ action_name (op_action opn) @ ''): '' @
     (if missing_id opn then ''Document ID is required'' else ''Document body is required'')"

text \<open>
  The wire expansion of one operation as the specification words it: an action
  descriptor, then for a non-delete action one payload entry, the raw document for index
  and create and the document under \<open>doc\<close> for update.
\<close>

definition action_descriptor :: "bulk_op \<Rightarrow> jsval" where
  "action_descriptor opn =
     JObj [(action_name (op_action opn),
            JObj ((''_index'', JStr (op_index opn)) #
                  (case op_id opn of
                     None \<Rightarrow> []
                   | Some i \<Rightarrow> if i = [] then [] else [(''_id'', JStr i)])))]"

fun payload :: "bulk_action \<Rightarrow> (string \<times> jsval) list \<Rightarrow> jsval list" where
  "payload Delete d = []"
| "payload Update d = [JObj [(''doc'', JObj d)]]"
| "payload Index d = [JObj d]"
| "payload Create d = [JObj d]"

definition wire_expansion :: "bulk_op \<Rightarrow> jsval list" where
  "wire_expansion opn =
     action_descriptor opn #
     (case op_document opn of None \<Rightarrow> [] | Some d \<Rightarrow> payload (op_action opn) d)"

section \<open>Sample inputs\<close>

text \<open>Concrete responses and arguments at which the theorems below are instantiated.\<close>

definition query_failure_of :: "string \<Rightarrow> string \<Rightarrow> query_failure" where
  "query_failure_of ident reason =
     \<lparr>failure_id = Some ident,
      failure_cause = Some \<lparr>cause_type = None, cause_reason = Some reason\<rparr>\<rparr>"

definition six_query_failures :: "query_failure list" where
  "six_query_failures =
     [query_failure_of ''d1'' ''conflict'', query_failure_of ''d2'' ''timeout'',
      query_failure_of ''d3'' ''conflict'', query_failure_of ''d4'' ''rejected'',
      query_failure_of ''d5'' ''conflict'', query_failure_of ''d6'' ''timeout'']"

definition query_result_with :: "query_failure list \<Rightarrow> UpdateByQueryResult" where
  "query_result_with fs =
     \<lparr>r_took = 12, r_total = 10, r_updated = 4, r_deleted = Some 7, r_failures = Some fs,
      r_version_conflicts = Some 1, r_task = None\<rparr>"

definition created_item :: "(string \<times> jsval) list" where
  "created_item =
     [(''index'', JObj [(''_id'', JStr ''1''), (''_index'', JStr ''a''), (''status'', JNum 201),
                        (''result'', JStr ''created'')])]"

definition failed_item :: "string \<Rightarrow> string \<Rightarrow> (string \<times> jsval) list" where
  "failed_item ident reason =
     [(''update'', JObj [(''_id'', JStr ident), (''_index'', JStr ''a''), (''status'', JNum 409),
                         (''error'', JObj [(''type'', JStr ''conflict''),
                                           (''reason'', JStr reason)])])]"

definition six_failed_items :: "(string \<times> jsval) list list" where
  "six_failed_items =
     [failed_item ''1'' ''stale'', failed_item ''2'' ''locked'', failed_item ''3'' ''stale'',
      failed_item ''4'' ''locked'', failed_item ''5'' ''stale'', failed_item ''6'' ''locked'']"

definition bulk_response_with :: "(string \<times> jsval) list list \<Rightarrow> BulkOperationResult" where
  "bulk_response_with items = \<lparr>bulk_took = 3, bulk_errors = True, bulk_items = items\<rparr>"

definition sample_update_args :: update_by_query_args where
  "sample_update_args =
     \<lparr>ubq_index = ''a'', ubq_query = [(''match_all'', JObj [])],
      ubq_script = \<lparr>script_source = ''ctx._source.n = 1'', script_params = None\<rparr>,
      ubq_conflicts = Some Proceed, ubq_maxDocs = None, ubq_refresh = True\<rparr>"

definition sample_delete_args :: delete_by_query_args where
  "sample_delete_args =
     \<lparr>dbq_index = ''a'', dbq_query = [(''match_all'', JObj [])],
      dbq_conflicts = None, dbq_maxDocs = Some 100, dbq_refresh = True\<rparr>"

definition sample_bulk_args :: bulk_args where
  "sample_bulk_args =
     \<lparr>operations =
        [\<lparr>op_action = Index, op_index = ''a'', op_id = Some [],
          op_document = Some [(''x'', JNum 1)]\<rparr>],
      pipeline = None\<rparr>"

section \<open>Auxiliary lemmas\<close>

lemmas sample_eval =
  query_failure_of_def six_query_failures_def query_result_with_def created_item_def
  failed_item_def six_failed_items_def bulk_response_with_def

lemma truthy_string_val: "truthy (string_val s) \<longleftrightarrow> (s \<noteq> None \<and> s \<noteq> Some [])"
  by (cases s) (simp_all add: string_val_def)

lemma truthy_record_val: "truthy (record_val d) \<longleftrightarrow> d \<noteq> None"
  by (cases d) (simp_all add: record_val_def)

lemma show_nat_digit: "n < 10 \<Longrightarrow> show_nat n = [digit_char n]"
  by (simp add: show_nat.simps)

lemma all_tools_exhaustive: "set all_tools = UNIV \<and> distinct all_tools \<and> length all_tools = 16"
proof -
  have "t \<in> set all_tools" for t
    by (cases t) (simp_all add: all_tools_def)
  then have "set all_tools = UNIV" by blast
  moreover have "distinct all_tools \<and> length all_tools = 16"
    by (simp add: all_tools_def)
  ultimately show ?thesis by blast
qed

lemma js_trim_localhost: "js_trim ''http://localhost:9200'' = ''http://localhost:9200''"
  by (simp add: js_trim_def is_js_whitespace_def)

section \<open>The catch boundary of the handlers\<close>

text \<open>
  Claim C1, as amended. Every handler catches whatever its body throws and returns a
  one-fragment envelope. For thirteen tools the fragment is \<open>Error: \<close> followed by the
  error's message; for \<open>add_document\<close>, \<open>update_document\<close> and \<open>delete_document\<close> the prefix is
  \<open>Error adding document: \<close>, \<open>Error updating document: \<close> and
  \<open>Error deleting document: \<close>. The same holds of the modelled handlers when the store
  client's call throws.
\<close>

theorem handler_catch_envelope:
  "content (envelope (try_catch t (cs, Inl e))) =
     [\<lparr>c_type = ''text'',
       c_text = (if t = add_document then ''Error adding document: ''
                 else if t = update_document then ''Error updating document: ''
                 else if t = delete_document then ''Error deleting document: ''
                 else ''Error: '') @ error_message e\<rparr>]
   \<and> envelope (add_document_handler a1 (failing_client e)) =
       text_response (''Error adding document: '' @ error_message e)
   \<and> envelope (update_document_handler a2 (failing_client e)) =
       text_response (''Error updating document: '' @ error_message e)
   \<and> envelope (delete_document_handler a3 (failing_client e)) =
       text_response (''Error deleting document: '' @ error_message e)
   \<and> envelope (update_by_query_handler a4 (failing_client e)) =
       text_response (''Error: '' @ error_message e)
   \<and> envelope (delete_by_query_handler a5 (failing_client e)) =
       text_response (''Error: '' @ error_message e)
   \<and> envelope (bulk_handler a6 (failing_client e)) =
       text_response (''Error: '' @
         error_message (case validate_operations 0 (operations a6) of None \<Rightarrow> e | Some e' \<Rightarrow> e'))"
proof -
  have generic: "content (envelope (try_catch t (cs, Inl e))) =
     [\<lparr>c_type = ''text'',
       c_text = (if t = add_document then ''Error adding document: ''
                 else if t = update_document then ''Error updating document: ''
                 else if t = delete_document then ''Error deleting document: ''
                 else ''Error: '') @ error_message e\<rparr>]"
    by (cases t) (simp_all add: try_catch_def text_response_def)
  have add: "envelope (add_document_handler a1 (failing_client e)) =
       text_response (''Error adding document: '' @ error_message e)"
    by (simp add: add_document_handler_def add_document_body_run_def failing_client_def
        try_catch_def Let_def)
  have upd: "envelope (update_document_handler a2 (failing_client e)) =
       text_response (''Error updating document: '' @ error_message e)"
    by (simp add: update_document_handler_def failing_client_def try_catch_def Let_def)
  have del: "envelope (delete_document_handler a3 (failing_client e)) =
       text_response (''Error deleting document: '' @ error_message e)"
    by (simp add: delete_document_handler_def failing_client_def try_catch_def Let_def)
  have ubq: "envelope (update_by_query_handler a4 (failing_client e)) =
       text_response (''Error: '' @ error_message e)"
    by (simp add: update_by_query_handler_def update_by_query_body_def failing_client_def
        try_catch_def Let_def)
  have dbq: "envelope (delete_by_query_handler a5 (failing_client e)) =
       text_response (''Error: '' @ error_message e)"
    by (simp add: delete_by_query_handler_def delete_by_query_body_def failing_client_def
        try_catch_def Let_def)
  have blk: "envelope (bulk_handler a6 (failing_client e)) =
       text_response (''Error: '' @
         error_message (case validate_operations 0 (operations a6) of None \<Rightarrow> e | Some e' \<Rightarrow> e'))"
    by (simp add: bulk_handler_def bulk_body_def failing_client_def try_catch_def Let_def
        split: option.split)
  from generic add upd del ubq dbq blk show ?thesis by blast
qed

theorem handler_catch_envelope_witness:
  "content (envelope (try_catch list_indices
      ([JObj [(''index'', JStr ''logs-*'')]], Inl (ErrorInstance ''connect ECONNREFUSED'')))) =
     [\<lparr>c_type = ''text'', c_text = ''Error: connect ECONNREFUSED''\<rparr>]"
  using handler_catch_envelope
    [of list_indices "[JObj [(''index'', JStr ''logs-*'')]]" "ErrorInstance ''connect ECONNREFUSED''"]
  by (simp add: error_message_def)

theorem add_document_error_prefix_counterexample:
  "c_text (hd (content (envelope
      (add_document_handler
         \<lparr>add_index = ''a'', add_id = None, add_document_body = [(''x'', JNum 1)]\<rparr>
         (failing_client (ErrorInstance ''connect ECONNREFUSED''))))))
     = ''Error adding document: connect ECONNREFUSED''
   \<and> c_text (hd (content (envelope
      (add_document_handler
         \<lparr>add_index = ''a'', add_id = None, add_document_body = [(''x'', JNum 1)]\<rparr>
         (failing_client (ErrorInstance ''connect ECONNREFUSED''))))))
     \<noteq> ''Error: '' @ error_message (ErrorInstance ''connect ECONNREFUSED'')"
  by (simp add: add_document_handler_def add_document_body_run_def failing_client_def
      try_catch_def Let_def text_response_def error_message_def)

section \<open>Configuration validation\<close>

text \<open>
  Claim C2, as amended. For a configuration whose trimmed url is non-empty: when the api
  key is present the validator accepts it, whatever the username and password are; when
  the api key is absent and the username present, it accepts exactly when the password is
  present too; when none of the three is present, it accepts. So the shapes api key
  alone, username with password, and no auth field are accepted, an api key next to a
  username or password is accepted as well, and a username without password (and without
  api key) is rejected. With an empty trimmed url nothing is accepted.
\<close>

theorem ConfigSchema_auth_shapes:
  "(apiKey config \<noteq> None \<longrightarrow>
      (ConfigSchema_accepts config \<longleftrightarrow> js_trim (url config) \<noteq> []))
   \<and> (apiKey config = None \<and> username config \<noteq> None \<longrightarrow>
      (ConfigSchema_accepts config \<longleftrightarrow>
         js_trim (url config) \<noteq> [] \<and> password config \<noteq> None))
   \<and> (apiKey config = None \<and> username config = None \<and> password config = None \<longrightarrow>
      (ConfigSchema_accepts config \<longleftrightarrow> js_trim (url config) \<noteq> []))"
  by (auto simp add: ConfigSchema_accepts_def ConfigSchema_parse_def ConfigSchema_refine_def
      Let_def Suc_le_eq)

theorem ConfigSchema_auth_shapes_witness:
  "ConfigSchema_accepts
       \<lparr>url = ''http://localhost:9200'', apiKey = Some ''key'', username = None,
        password = None, caCert = None, pathPrefix = None, version = Some ''8'',
        sslSkipVerify = None\<rparr>
   \<and> ConfigSchema_accepts
       \<lparr>url = ''http://localhost:9200'', apiKey = None, username = Some ''elastic'',
        password = Some ''changeme'', caCert = None, pathPrefix = None, version = Some ''8'',
        sslSkipVerify = None\<rparr>
   \<and> ConfigSchema_accepts
       \<lparr>url = ''http://localhost:9200'', apiKey = None, username = None,
        password = None, caCert = None, pathPrefix = None, version = Some ''8'',
        sslSkipVerify = None\<rparr>
   \<and> \<not> ConfigSchema_accepts
       \<lparr>url = ''http://localhost:9200'', apiKey = None, username = Some ''elastic'',
        password = None, caCert = None, pathPrefix = None, version = Some ''8'',
        sslSkipVerify = None\<rparr>"
  using
    ConfigSchema_auth_shapes [where config = "\<lparr>url = ''http://localhost:9200'', apiKey = Some ''key'', username = None,
        password = None, caCert = None, pathPrefix = None, version = Some ''8'',
        sslSkipVerify = None\<rparr>"]
    ConfigSchema_auth_shapes [where config = "\<lparr>url = ''http://localhost:9200'', apiKey = None, username = Some ''elastic'',
        password = Some ''changeme'', caCert = None, pathPrefix = None, version = Some ''8'',
        sslSkipVerify = None\<rparr>"]
    ConfigSchema_auth_shapes [where config = "\<lparr>url = ''http://localhost:9200'', apiKey = None, username = None,
        password = None, caCert = None, pathPrefix = None, version = Some ''8'',
        sslSkipVerify = None\<rparr>"]
    ConfigSchema_auth_shapes [where config = "\<lparr>url = ''http://localhost:9200'', apiKey = None, username = Some ''elastic'',
        password = None, caCert = None, pathPrefix = None, version = Some ''8'',
        sslSkipVerify = None\<rparr>"]
  by (simp add: js_trim_localhost)

theorem api_key_with_username_counterexample:
  "ConfigSchema_accepts
       \<lparr>url = ''http://localhost:9200'', apiKey = Some ''key'', username = Some ''elastic'',
        password = None, caCert = None, pathPrefix = None, version = Some ''8'',
        sslSkipVerify = None\<rparr>
   \<and> \<not> claimed_auth_shape
       \<lparr>url = ''http://localhost:9200'', apiKey = Some ''key'', username = Some ''elastic'',
        password = None, caCert = None, pathPrefix = None, version = Some ''8'',
        sslSkipVerify = None\<rparr>"
  by (simp add: ConfigSchema_accepts_def ConfigSchema_parse_def ConfigSchema_refine_def
      claimed_auth_shape_def js_trim_localhost Let_def)

section \<open>Bulk: validation and wire compilation\<close>

lemma validate_operations_first:
  "k < length ops \<Longrightarrow> invalid_op (ops ! k) \<Longrightarrow> (\<forall>j<k. \<not> invalid_op (ops ! j)) \<Longrightarrow>
   validate_operations idx ops = Some (ErrorInstance (rejection_message (idx + k) (ops ! k)))"
proof (induction ops arbitrary: idx k)
  case Nil
  then show ?case by simp
next
  case (Cons opn ops)
  show ?case
  proof (cases k)
    case 0
    with Cons.prems show ?thesis
      by (auto simp add: invalid_op_def missing_id_def missing_document_def rejection_message_def
          truthy_string_val truthy_record_val)
  next
    case (Suc k')
    from Cons.prems Suc have head_valid: "\<not> invalid_op opn" by auto
    from Cons.prems Suc
    have "k' < length ops" "invalid_op (ops ! k')" "\<forall>j<k'. \<not> invalid_op (ops ! j)"
      by auto
    from Cons.IH [OF this, of "idx + 1"] head_valid Suc show ?thesis
      by (auto simp add: invalid_op_def missing_id_def missing_document_def
          truthy_string_val truthy_record_val)
  qed
qed

lemma validate_operations_None:
  "validate_operations idx ops = None \<longleftrightarrow> (\<forall>opn\<in>set ops. \<not> invalid_op opn)"
  by (induction ops arbitrary: idx)
     (auto simp add: invalid_op_def missing_id_def missing_document_def
        truthy_string_val truthy_record_val)

lemma first_position:
  assumes "\<exists>x\<in>set xs. P x"
  shows "\<exists>k<length xs. P (xs ! k) \<and> (\<forall>j<k. \<not> P (xs ! j))"
proof -
  from assms obtain i where i: "i < length xs" "P (xs ! i)"
    by (auto simp add: in_set_conv_nth)
  define k where "k = (LEAST i. i < length xs \<and> P (xs ! i))"
  have least: "k < length xs \<and> P (xs ! k)"
    unfolding k_def using i by (metis (mono_tags, lifting) LeastI)
  have "\<forall>j<k. \<not> P (xs ! j)"
  proof (intro allI impI)
    fix j assume "j < k"
    then have "\<not> (j < length xs \<and> P (xs ! j))"
      unfolding k_def by (rule not_less_Least)
    with \<open>j < k\<close> least show "\<not> P (xs ! j)" by simp
  qed
  with least show ?thesis by blast
qed

lemma build_bulkOperations_concat:
  "build_bulkOperations acc ops = acc @ concat (map op_entries ops)"
  by (induction ops arbitrary: acc) simp_all

lemma length_op_entries: "length (op_entries opn) = (if op_action opn = Delete then 1 else 2)"
  by (simp add: op_entries_def)

lemma length_concat_op_entries:
  "length (concat (map op_entries ops)) =
     2 * length (filter (\<lambda>opn. op_action opn \<noteq> Delete) ops) +
     length (filter (\<lambda>opn. op_action opn = Delete) ops)"
  by (induction ops) (simp_all add: length_op_entries)

lemma actionMeta_descriptor:
  "JObj [(action_name (op_action opn), actionMeta opn)] = action_descriptor opn"
  by (cases "op_id opn") (simp_all add: actionMeta_def action_descriptor_def string_val_def)

lemma op_entries_descriptor:
  "op_entries opn =
     action_descriptor opn #
     (if op_action opn \<noteq> Delete
      then (if op_action opn = Update
            then [JObj [(''doc'', record_val (op_document opn))]]
            else [record_val (op_document opn)])
      else [])"
  by (simp add: op_entries_def actionMeta_descriptor)

lemma op_entries_valid:
  assumes "\<not> invalid_op opn"
  shows "op_entries opn = wire_expansion opn"
proof (cases "op_document opn")
  case None
  with assms have "op_action opn = Delete"
    by (cases "op_action opn") (simp_all add: invalid_op_def missing_document_def)
  with None show ?thesis
    by (simp add: op_entries_descriptor wire_expansion_def)
next
  case (Some d)
  then show ?thesis
    by (cases "op_action opn")
       (simp_all add: op_entries_descriptor wire_expansion_def record_val_def)
qed

text \<open>
  Claim C4. For every list of operations that passes validation, the wire sequence is
  the concatenation, in the original order, of each operation's expansion: one action
  descriptor, then for a non-delete action one payload entry. Its length is twice the
  number of non-delete operations plus the number of delete operations.
\<close>

theorem bulk_wire_sequence:
  assumes "validate_operations 0 ops = None"
  shows "build_bulkOperations [] ops = concat (map wire_expansion ops)
       \<and> length (build_bulkOperations [] ops) =
           2 * length (filter (\<lambda>opn. op_action opn \<noteq> Delete) ops) +
           length (filter (\<lambda>opn. op_action opn = Delete) ops)"
proof -
  from assms have "\<forall>opn\<in>set ops. \<not> invalid_op opn"
    by (simp add: validate_operations_None)
  then have "map op_entries ops = map wire_expansion ops"
    by (simp add: op_entries_valid)
  then have "build_bulkOperations [] ops = concat (map wire_expansion ops)"
    by (simp only: build_bulkOperations_concat append_Nil)
  moreover have "length (build_bulkOperations [] ops) =
           2 * length (filter (\<lambda>opn. op_action opn \<noteq> Delete) ops) +
           length (filter (\<lambda>opn. op_action opn = Delete) ops)"
    by (simp only: build_bulkOperations_concat append_Nil length_concat_op_entries)
  ultimately show ?thesis by blast
qed

theorem bulk_wire_sequence_witness:
  "build_bulkOperations []
     [\<lparr>op_action = Index, op_index = ''a'', op_id = Some ''1'',
       op_document = Some [(''x'', JNum 1)]\<rparr>,
      \<lparr>op_action = Update, op_index = ''a'', op_id = Some ''2'',
       op_document = Some [(''y'', JNum 2)]\<rparr>,
      \<lparr>op_action = Delete, op_index = ''a'', op_id = Some ''3'', op_document = None\<rparr>]
   = [JObj [(''index'', JObj [(''_index'', JStr ''a''), (''_id'', JStr ''1'')])],
      JObj [(''x'', JNum 1)],
      JObj [(''update'', JObj [(''_index'', JStr ''a''), (''_id'', JStr ''2'')])],
      JObj [(''doc'', JObj [(''y'', JNum 2)])],
      JObj [(''delete'', JObj [(''_index'', JStr ''a''), (''_id'', JStr ''3'')])]]"
proof -
  have valid: "validate_operations 0
     [\<lparr>op_action = Index, op_index = ''a'', op_id = Some ''1'',
       op_document = Some [(''x'', JNum 1)]\<rparr>,
      \<lparr>op_action = Update, op_index = ''a'', op_id = Some ''2'',
       op_document = Some [(''y'', JNum 2)]\<rparr>,
      \<lparr>op_action = Delete, op_index = ''a'', op_id = Some ''3'', op_document = None\<rparr>] = None"
    by (simp add: string_val_def record_val_def)
  from bulk_wire_sequence [OF valid] show ?thesis
    by (simp add: wire_expansion_def action_descriptor_def action_name_def)
qed

text \<open>
  Claim C6. A bulk invocation with at least one invalid operation (an update or delete
  whose id is absent or empty, or an index, create or update without a document) sends
  nothing to the store client; the first invalid operation determines the message, which
  names its 1-based position, its action and the missing field. A single delete without an
  id gives \<open>Operation #1 (delete): Document ID is required\<close>.
\<close>

theorem bulk_rejects_invalid:
  assumes "\<exists>opn\<in>set ops. invalid_op opn"
  shows "\<exists>k<length ops. invalid_op (ops ! k) \<and> (\<forall>j<k. \<not> invalid_op (ops ! j)) \<and>
     bulk_handler \<lparr>operations = ops, pipeline = pl\<rparr> client =
       \<lparr>calls = [],
        console = [''Bulk operation failed: '' @ rejection_message k (ops ! k)],
        envelope = text_response (''Error: '' @ rejection_message k (ops ! k))\<rparr>"
proof -
  from first_position [OF assms] obtain k where
    k: "k < length ops" "invalid_op (ops ! k)" "\<forall>j<k. \<not> invalid_op (ops ! j)" by blast
  from validate_operations_first [OF k, of 0]
  have "bulk_handler \<lparr>operations = ops, pipeline = pl\<rparr> client =
       \<lparr>calls = [],
        console = [''Bulk operation failed: '' @ rejection_message k (ops ! k)],
        envelope = text_response (''Error: '' @ rejection_message k (ops ! k))\<rparr>"
    by (simp add: bulk_handler_def bulk_body_def try_catch_def error_message_def)
  with k show ?thesis by blast
qed

theorem bulk_rejects_invalid_witness:
  "bulk_handler
     \<lparr>operations = [\<lparr>op_action = Delete, op_index = ''a'', op_id = None, op_document = None\<rparr>],
      pipeline = None\<rparr>
     (answering_client \<lparr>bulk_took = 1, bulk_errors = False, bulk_items = []\<rparr>) =
   \<lparr>calls = [],
    console = [''Bulk operation failed: Operation #1 (delete): Document ID is required''],
    envelope = text_response ''Error: Operation #1 (delete): Document ID is required''\<rparr>"
proof -
  have invalid: "\<exists>opn\<in>set [\<lparr>op_action = Delete, op_index = ''a'', op_id = None,
      op_document = None\<rparr>]. invalid_op opn"
    by (simp add: invalid_op_def missing_id_def)
  from bulk_rejects_invalid [OF invalid, of None
      "answering_client \<lparr>bulk_took = 1, bulk_errors = False, bulk_items = []\<rparr>"]
  show ?thesis
    by (simp add: rejection_message_def missing_id_def action_name_def show_nat_digit
        digit_char_def)
qed

section \<open>Bulk: summarising the store's response\<close>

lemma item_result_Nil: "item_result [] = JUndefined"
  by (simp add: item_result_def item_actionType_def get_prop_def)

lemma summarize_item_skip: "\<not> has_result item \<Longrightarrow> summarize_item s item idx = s"
  by (simp add: summarize_item_def has_result_def)

lemma summarize_item_counts:
  "has_result item \<Longrightarrow>
   successes (summarize_item s item idx) + failures (summarize_item s item idx) =
     Suc (successes s + failures s)"
  by (cases item)
     (auto simp add: summarize_item_def has_result_def Let_def item_actionType_def
        item_result_Nil)

lemma summarize_item_operation:
  "has_result item \<Longrightarrow>
   map ar_operation (actionResults (summarize_item s item idx)) =
     map ar_operation (actionResults s) @ [idx]"
  by (cases item)
     (auto simp add: summarize_item_def has_result_def Let_def item_actionType_def
        item_result_Nil)

lemma summarize_item_failures:
  "failures s = length (filter (\<lambda>r. ar_error r \<noteq> None) (actionResults s)) \<Longrightarrow>
   failures (summarize_item s item idx) =
     length (filter (\<lambda>r. ar_error r \<noteq> None) (actionResults (summarize_item s item idx)))"
  by (cases item) (auto simp add: summarize_item_def Let_def item_actionType_def)

lemma summarize_items_counts:
  "successes (summarize_items s idx items) + failures (summarize_items s idx items) =
     successes s + failures s + length (filter has_result items)"
proof (induction items arbitrary: s idx)
  case Nil
  then show ?case by simp
next
  case (Cons item items)
  show ?case
  proof (cases "has_result item")
    case True
    then show ?thesis by (simp add: Cons.IH summarize_item_counts)
  next
    case False
    then show ?thesis by (simp add: Cons.IH summarize_item_skip)
  qed
qed

lemma summarize_items_operation:
  "map ar_operation (actionResults (summarize_items s idx items)) =
     map ar_operation (actionResults s) @
     map fst (filter (\<lambda>p. has_result (snd p)) (enumerate idx items))"
proof (induction items arbitrary: s idx)
  case Nil
  then show ?case by simp
next
  case (Cons item items)
  show ?case
  proof (cases "has_result item")
    case True
    then show ?thesis by (simp add: Cons.IH summarize_item_operation)
  next
    case False
    then show ?thesis by (simp add: Cons.IH summarize_item_skip)
  qed
qed

lemma summarize_items_failures:
  "failures s = length (filter (\<lambda>r. ar_error r \<noteq> None) (actionResults s)) \<Longrightarrow>
   failures (summarize_items s idx items) =
     length (filter (\<lambda>r. ar_error r \<noteq> None) (actionResults (summarize_items s idx items)))"
  by (induction items arbitrary: s idx) (simp_all add: summarize_item_failures)

lemma summarize_failures:
  "failures (summarize response) =
     length (filter (\<lambda>r. ar_error r \<noteq> None) (actionResults (summarize response)))"
  unfolding summarize_def by (rule summarize_items_failures) simp

lemma filter_all: "\<forall>x\<in>set xs. P x \<Longrightarrow> filter P xs = xs"
  by (induction xs) simp_all

text \<open>
  Claim C3, as amended. Summarisation skips every item whose action key maps to a
  null, missing or otherwise falsy result. For a response with as many items as there are
  operations, the summary holds one record per remaining item, in input order, each
  carrying the position of its item, and successes plus failures is the number of
  remaining items. When no item is skipped there is exactly one record per operation, at
  positions 0, 1, ... in order, and successes plus failures is the number of operations.
\<close>

theorem summarize_records:
  assumes len: "length (bulk_items response) = length ops"
  shows "map ar_operation (actionResults (summarize response)) =
           map fst (filter (\<lambda>p. has_result (snd p)) (enumerate 0 (bulk_items response)))
         \<and> successes (summarize response) + failures (summarize response) =
           length (filter has_result (bulk_items response))
         \<and> ((\<forall>item\<in>set (bulk_items response). has_result item) \<longrightarrow>
              map ar_operation (actionResults (summarize response)) = [0..<length ops]
              \<and> successes (summarize response) + failures (summarize response) = length ops)"
proof -
  have positions: "map ar_operation (actionResults (summarize response)) =
           map fst (filter (\<lambda>p. has_result (snd p)) (enumerate 0 (bulk_items response)))"
    by (simp add: summarize_def summarize_items_operation)
  have counts: "successes (summarize response) + failures (summarize response) =
           length (filter has_result (bulk_items response))"
    by (simp add: summarize_def summarize_items_counts)
  have "map ar_operation (actionResults (summarize response)) = [0..<length ops]
              \<and> successes (summarize response) + failures (summarize response) = length ops"
    if all: "\<forall>item\<in>set (bulk_items response). has_result item"
  proof -
    from all have "\<forall>p\<in>set (enumerate 0 (bulk_items response)). has_result (snd p)"
      by (auto simp add: in_set_enumerate_eq)
    then have "filter (\<lambda>p. has_result (snd p)) (enumerate 0 (bulk_items response)) =
         enumerate 0 (bulk_items response)"
      by (rule filter_all)
    with positions len
    have "map ar_operation (actionResults (summarize response)) = [0..<length ops]"
      by simp
    moreover from all have "filter has_result (bulk_items response) = bulk_items response"
      by (rule filter_all)
    with counts len
    have "successes (summarize response) + failures (summarize response) = length ops"
      by simp
    ultimately show ?thesis by blast
  qed
  with positions counts show ?thesis by blast
qed

theorem summarize_records_witness:
  "map ar_operation
     (actionResults (summarize (bulk_response_with [created_item, failed_item ''2'' ''stale''])))
     = [0, 1]
   \<and> successes (summarize (bulk_response_with [created_item, failed_item ''2'' ''stale'']))
     + failures (summarize (bulk_response_with [created_item, failed_item ''2'' ''stale'']))
     = 2"
  using summarize_records
    [where response = "bulk_response_with [created_item, failed_item ''2'' ''stale'']"
       and ops = "[\<lparr>op_action = Index, op_index = ''a'', op_id = Some ''1'',
                     op_document = Some [(''x'', JNum 1)]\<rparr>,
                   \<lparr>op_action = Update, op_index = ''a'', op_id = Some ''2'',
                     op_document = Some [(''y'', JNum 2)]\<rparr>]"]
  by (simp add: has_result_def item_result_def item_actionType_def get_prop_def sample_eval)

theorem null_result_skipped_counterexample:
  "length (bulk_items
      \<lparr>bulk_took = 3, bulk_errors = False, bulk_items = [[(''delete'', JNull)]]\<rparr>) =
     length [\<lparr>op_action = Delete, op_index = ''a'', op_id = Some ''1'', op_document = None\<rparr>]
   \<and> actionResults (summarize
      \<lparr>bulk_took = 3, bulk_errors = False, bulk_items = [[(''delete'', JNull)]]\<rparr>) = []
   \<and> successes (summarize
      \<lparr>bulk_took = 3, bulk_errors = False, bulk_items = [[(''delete'', JNull)]]\<rparr>)
     + failures (summarize
      \<lparr>bulk_took = 3, bulk_errors = False, bulk_items = [[(''delete'', JNull)]]\<rparr>)
     \<noteq> length [\<lparr>op_action = Delete, op_index = ''a'', op_id = Some ''1'', op_document = None\<rparr>]"
  by (simp add: summarize_def summarize_item_def item_result_def item_actionType_def
      get_prop_def)

section \<open>Truncated failure lists\<close>

lemma forEach_append_nth:
  "forEach_append line idx xs t =
     t @ concat (map (\<lambda>k. line (idx + k) (xs ! k)) [0..<length xs])"
proof (induction xs arbitrary: idx t)
  case Nil
  then show ?case by simp
next
  case (Cons x xs)
  have "[0..<length (x # xs)] = 0 # map Suc [0..<length xs]"
    by (simp add: upt_conv_Cons map_Suc_upt del: upt_Suc)
  then show ?case by (simp add: Cons.IH comp_def del: upt_Suc)
qed

lemma forEach_append_take:
  assumes "n \<le> length fs"
  shows "forEach_append line 0 (take n fs) t = t @ concat (map (\<lambda>k. line k (fs ! k)) [0..<n])"
proof -
  from assms have len: "length (take n fs) = n" by simp
  have eq: "map (\<lambda>k. line k (take n fs ! k)) [0..<n] = map (\<lambda>k. line k (fs ! k)) [0..<n]"
    by (rule map_cong) simp_all
  have "forEach_append line 0 (take n fs) t =
          t @ concat (map (\<lambda>k. line k (take n fs ! k)) [0..<length (take n fs)])"
    using forEach_append_nth [of line 0 "take n fs" t] by simp
  then show ?thesis by (simp only: len eq)
qed

lemma append_failures_many:
  "5 < length fs \<Longrightarrow>
   append_failures line (Some fs) t =
     t @ ''\<newline>\<newline>Failures:'' @ concat (map (\<lambda>k. line k (fs ! k)) [0..<5]) @
     ''\<newline>...and '' @ show_nat (length fs - 5) @ '' more failures.''"
  using forEach_append_take [of 5 fs line]
  by (auto simp add: append_failures_def Let_def)

lemma append_failures_few:
  "length fs \<le> 5 \<Longrightarrow>
   append_failures line (Some fs) t =
     t @ (if fs = [] then []
          else ''\<newline>\<newline>Failures:'' @ concat (map (\<lambda>k. line k (fs ! k)) [0..<length fs]))"
  using forEach_append_take [of "length fs" fs line]
  by (simp add: append_failures_def Let_def)

lemma bulk_resultText_many:
  assumes "fs = filter (\<lambda>r. ar_error r \<noteq> None) (actionResults s)"
      and "failures s = length fs"
      and "5 < length fs"
  shows "bulk_resultText n s =
     bulk_head n s @ ''\<newline>Failures:\<newline>'' @
     concat (map (\<lambda>k. bulk_failure_line k (fs ! k)) [0..<5]) @
     ''...and '' @ show_nat (length fs - 5) @ '' more failures.\<newline>''"
proof -
  from assms(3) have "forEach_append bulk_failure_line 0 (take 5 fs)
        (bulk_head n s @ ''\<newline>Failures:\<newline>'') =
      (bulk_head n s @ ''\<newline>Failures:\<newline>'') @
      concat (map (\<lambda>k. bulk_failure_line k (fs ! k)) [0..<5])"
    by (intro forEach_append_take) simp
  moreover from assms(2,3) have "0 < failures s" by auto
  ultimately show ?thesis
    using assms(3) unfolding bulk_resultText_def Let_def assms(1) [symmetric] by simp
qed

lemma bulk_resultText_few:
  assumes "fs = filter (\<lambda>r. ar_error r \<noteq> None) (actionResults s)"
      and "failures s = length fs"
      and "length fs \<le> 5"
  shows "bulk_resultText n s =
     bulk_head n s @
     (if fs = [] then []
      else ''\<newline>Failures:\<newline>'' @
           concat (map (\<lambda>k. bulk_failure_line k (fs ! k)) [0..<length fs]))"
proof -
  have "forEach_append bulk_failure_line 0 (take (length fs) fs)
        (bulk_head n s @ ''\<newline>Failures:\<newline>'') =
      (bulk_head n s @ ''\<newline>Failures:\<newline>'') @
      concat (map (\<lambda>k. bulk_failure_line k (fs ! k)) [0..<length fs])"
    by (intro forEach_append_take) simp
  moreover from assms(3) have "take 5 fs = take (length fs) fs" by simp
  ultimately show ?thesis
    using assms(2,3) unfolding bulk_resultText_def Let_def assms(1) [symmetric] by simp
qed

text \<open>
  Claim C5. In the update-by-query, delete-by-query and bulk reports the failure list is
  rendered as follows. With more than 5 failures the report shows exactly the first 5
  entries, in original order, then one overflow line \<open>...and N more failures.\<close> with N
  the failure count minus 5. With at most 5 failures every failure is shown and the text
  ends after the last entry, with no overflow line (and with no failure there is no
  failure section at all). In the bulk report the failures are the summary records that
  carry an error, and their number is the summary's failure count.
\<close>

theorem failure_list_truncation:
  assumes fs: "r_failures response = Some fs"
      and bfs: "bfs = filter (\<lambda>r. ar_error r \<noteq> None) (actionResults (summarize bresponse))"
  shows
   "(5 < length fs \<longrightarrow>
       update_by_query_resultText index response =
         update_by_query_head index response @ ''\<newline>\<newline>Failures:'' @
         concat (map (\<lambda>k. update_failure_line k (fs ! k)) [0..<5]) @
         ''\<newline>...and '' @ show_nat (length fs - 5) @ '' more failures.''
     \<and> delete_by_query_resultText index response =
         delete_by_query_head index response @ ''\<newline>\<newline>Failures:'' @
         concat (map (\<lambda>k. delete_failure_line k (fs ! k)) [0..<5]) @
         ''\<newline>...and '' @ show_nat (length fs - 5) @ '' more failures.'')
    \<and> (length fs \<le> 5 \<longrightarrow>
       update_by_query_resultText index response =
         update_by_query_head index response @
         (if fs = [] then []
          else ''\<newline>\<newline>Failures:'' @
               concat (map (\<lambda>k. update_failure_line k (fs ! k)) [0..<length fs]))
     \<and> delete_by_query_resultText index response =
         delete_by_query_head index response @
         (if fs = [] then []
          else ''\<newline>\<newline>Failures:'' @
               concat (map (\<lambda>k. delete_failure_line k (fs ! k)) [0..<length fs])))
    \<and> length bfs = failures (summarize bresponse)
    \<and> (5 < length bfs \<longrightarrow>
       bulk_resultText n (summarize bresponse) =
         bulk_head n (summarize bresponse) @ ''\<newline>Failures:\<newline>'' @
         concat (map (\<lambda>k. bulk_failure_line k (bfs ! k)) [0..<5]) @
         ''...and '' @ show_nat (length bfs - 5) @ '' more failures.\<newline>'')
    \<and> (length bfs \<le> 5 \<longrightarrow>
       bulk_resultText n (summarize bresponse) =
         bulk_head n (summarize bresponse) @
         (if bfs = [] then []
          else ''\<newline>Failures:\<newline>'' @
               concat (map (\<lambda>k. bulk_failure_line k (bfs ! k)) [0..<length bfs])))"
proof -
  have many: "update_by_query_resultText index response =
         update_by_query_head index response @ ''\<newline>\<newline>Failures:'' @
         concat (map (\<lambda>k. update_failure_line k (fs ! k)) [0..<5]) @
         ''\<newline>...and '' @ show_nat (length fs - 5) @ '' more failures.''
     \<and> delete_by_query_resultText index response =
         delete_by_query_head index response @ ''\<newline>\<newline>Failures:'' @
         concat (map (\<lambda>k. delete_failure_line k (fs ! k)) [0..<5]) @
         ''\<newline>...and '' @ show_nat (length fs - 5) @ '' more failures.''"
    if "5 < length fs"
    using that fs
    by (simp add: update_by_query_resultText_def delete_by_query_resultText_def
        append_failures_many)
  have few: "update_by_query_resultText index response =
         update_by_query_head index response @
         (if fs = [] then []
          else ''\<newline>\<newline>Failures:'' @
               concat (map (\<lambda>k. update_failure_line k (fs ! k)) [0..<length fs]))
     \<and> delete_by_query_resultText index response =
         delete_by_query_head index response @
         (if fs = [] then []
          else ''\<newline>\<newline>Failures:'' @
               concat (map (\<lambda>k. delete_failure_line k (fs ! k)) [0..<length fs]))"
    if "length fs \<le> 5"
    using that fs
    by (simp add: update_by_query_resultText_def delete_by_query_resultText_def
        append_failures_few)
  have count: "length bfs = failures (summarize bresponse)"
    by (simp only: bfs summarize_failures)
  have bmany: "bulk_resultText n (summarize bresponse) =
         bulk_head n (summarize bresponse) @ ''\<newline>Failures:\<newline>'' @
         concat (map (\<lambda>k. bulk_failure_line k (bfs ! k)) [0..<5]) @
         ''...and '' @ show_nat (length bfs - 5) @ '' more failures.\<newline>''"
    if "5 < length bfs"
    using bfs count [symmetric] that by (rule bulk_resultText_many)
  have bfew: "bulk_resultText n (summarize bresponse) =
         bulk_head n (summarize bresponse) @
         (if bfs = [] then []
          else ''\<newline>Failures:\<newline>'' @
               concat (map (\<lambda>k. bulk_failure_line k (bfs ! k)) [0..<length bfs]))"
    if "length bfs \<le> 5"
    using bfs count [symmetric] that by (rule bulk_resultText_few)
  from many few count bmany bfew show ?thesis by blast
qed

lemmas report_eval =
  update_by_query_head_def delete_by_query_head_def bulk_head_def
  update_failure_line_def delete_failure_line_def bulk_failure_line_def
  failures_length_def string_or_def failure_reason_def js_or_def string_val_def num_val_def
  show_int_def show_nat.simps digit_char_def
  summarize_def summarize_item_def item_result_def item_actionType_def get_prop_def Let_def

lemma upt_5: "[0..<5] = [0, 1, 2, 3, 4]"
  by (simp add: upt_rec)

theorem failure_list_truncation_witness:
  "update_by_query_resultText ''a'' (query_result_with six_query_failures) =
     ''Update by query completed successfully in index '' @ [CHR 0x27] @ ''a'' @ [CHR 0x27] @
     '':\<newline>- Total documents processed: 10\<newline>- Documents updated: 4\<newline>'' @
     ''- Documents that failed: 6\<newline>- Time taken: 12ms\<newline>\<newline>Failures:'' @
     ''\<newline>1. ID: d1, Reason: conflict\<newline>2. ID: d2, Reason: timeout'' @
     ''\<newline>3. ID: d3, Reason: conflict\<newline>4. ID: d4, Reason: rejected'' @
     ''\<newline>5. ID: d5, Reason: conflict\<newline>...and 1 more failures.''
   \<and> bulk_resultText 2
       (summarize (bulk_response_with [created_item, failed_item ''7'' ''stale''])) =
     ''Bulk operation completed in 3ms\<newline>- Total operations: 2\<newline>'' @
     ''- Successful: 1\<newline>- Failed: 1\<newline>\<newline>Failures:\<newline>'' @
     ''1. Operation #1 (update): stale [conflict]\<newline>''
   \<and> delete_by_query_resultText ''a''
       (query_result_with [query_failure_of ''d1'' ''conflict'']) =
     ''Delete by query completed successfully in index '' @ [CHR 0x27] @ ''a'' @ [CHR 0x27] @
     '':\<newline>- Total documents processed: 10\<newline>- Documents deleted: 7\<newline>'' @
     ''- Deletion failures: 1\<newline>- Time taken: 12ms\<newline>- Version conflicts: 1'' @
     ''\<newline>\<newline>Failures:\<newline>1. ID: d1, Reason: conflict''
   \<and> bulk_resultText 6 (summarize (bulk_response_with six_failed_items)) =
     ''Bulk operation completed in 3ms\<newline>- Total operations: 6\<newline>'' @
     ''- Successful: 0\<newline>- Failed: 6\<newline>\<newline>Failures:\<newline>'' @
     ''1. Operation #0 (update): stale [conflict]\<newline>'' @
     ''2. Operation #1 (update): locked [conflict]\<newline>'' @
     ''3. Operation #2 (update): stale [conflict]\<newline>'' @
     ''4. Operation #3 (update): locked [conflict]\<newline>'' @
     ''5. Operation #4 (update): stale [conflict]\<newline>'' @
     ''...and 1 more failures.\<newline>''"
  using
    failure_list_truncation
      [of "query_result_with six_query_failures" six_query_failures _
          "bulk_response_with [created_item, failed_item ''7'' ''stale'']" "''a''" 2,
       OF _ refl]
    failure_list_truncation
      [of "query_result_with [query_failure_of ''d1'' ''conflict'']"
          "[query_failure_of ''d1'' ''conflict'']" _
          "bulk_response_with six_failed_items" "''a''" 6,
       OF _ refl]
  by (simp add: report_eval sample_eval upt_5)

section \<open>Requests sent to the store\<close>

lemma update_by_query_refresh:
  "get_prop (update_by_query_params args) ''refresh'' = JBool (ubq_refresh args)"
  by (simp add: update_by_query_params_def get_prop_def)

lemma delete_by_query_refresh:
  "get_prop (delete_by_query_params args) ''refresh'' = JBool (dbq_refresh args)"
  by (simp add: delete_by_query_params_def get_prop_def)

lemma update_by_query_calls:
  "calls (update_by_query_handler args client) = [update_by_query_params args]"
  by (simp add: update_by_query_handler_def update_by_query_body_def try_catch_def Let_def
      split: sum.split)

lemma delete_by_query_calls:
  "calls (delete_by_query_handler args client) = [delete_by_query_params args]"
  by (simp add: delete_by_query_handler_def delete_by_query_body_def try_catch_def Let_def
      split: sum.split)

lemma bulk_calls:
  "calls (bulk_handler args client) =
     (if validate_operations 0 (operations args) = None
      then [ElasticsearchService_bulk (build_bulkOperations [] (operations args)) (pipeline args)]
      else [])"
  by (auto simp add: bulk_handler_def bulk_body_def try_catch_def Let_def
      split: sum.split option.split)

lemma bulk_request_refresh:
  "get_prop (ElasticsearchService_bulk ops pl) ''refresh'' = JBool True"
  by (simp add: ElasticsearchService_bulk_def get_prop_def)

text \<open>
  Claim C7. For update-by-query and for delete-by-query, the \<open>refresh\<close> property of the
  request sent to the store is true when the caller omits the \<open>refresh\<close> argument, false
  when the caller passes false, and true when the caller passes true.
\<close>

theorem refresh_tri_state:
  "map (\<lambda>p. get_prop p ''refresh'')
     (calls (update_by_query_handler (uargs\<lparr>ubq_refresh := refresh_schema None\<rparr>) client))
     = [JBool True]
   \<and> map (\<lambda>p. get_prop p ''refresh'')
     (calls (update_by_query_handler (uargs\<lparr>ubq_refresh := refresh_schema (Some False)\<rparr>) client))
     = [JBool False]
   \<and> map (\<lambda>p. get_prop p ''refresh'')
     (calls (update_by_query_handler (uargs\<lparr>ubq_refresh := refresh_schema (Some True)\<rparr>) client))
     = [JBool True]
   \<and> map (\<lambda>p. get_prop p ''refresh'')
     (calls (delete_by_query_handler (dargs\<lparr>dbq_refresh := refresh_schema None\<rparr>) client))
     = [JBool True]
   \<and> map (\<lambda>p. get_prop p ''refresh'')
     (calls (delete_by_query_handler (dargs\<lparr>dbq_refresh := refresh_schema (Some False)\<rparr>) client))
     = [JBool False]
   \<and> map (\<lambda>p. get_prop p ''refresh'')
     (calls (delete_by_query_handler (dargs\<lparr>dbq_refresh := refresh_schema (Some True)\<rparr>) client))
     = [JBool True]"
  by (simp add: update_by_query_calls delete_by_query_calls update_by_query_refresh
      delete_by_query_refresh refresh_schema_def)

theorem refresh_tri_state_witness:
  "calls (update_by_query_handler (sample_update_args\<lparr>ubq_refresh := refresh_schema None\<rparr>)
       (answering_client (query_result_with []))) =
     [JObj [(''index'', JStr ''a''),
            (''body'', JObj [(''query'', JObj [(''match_all'', JObj [])]),
                             (''script'', JObj [(''source'', JStr ''ctx._source.n = 1''),
                                                (''params'', JUndefined)])]),
            (''refresh'', JBool True),
            (''conflicts'', JStr ''proceed'')]]
   \<and> map (\<lambda>p. get_prop p ''refresh'')
       (calls (update_by_query_handler
          (sample_update_args\<lparr>ubq_refresh := refresh_schema None\<rparr>)
          (answering_client (query_result_with [])))) = [JBool True]
   \<and> map (\<lambda>p. get_prop p ''refresh'')
       (calls (delete_by_query_handler
          (sample_delete_args\<lparr>dbq_refresh := refresh_schema (Some False)\<rparr>)
          (answering_client (query_result_with [])))) = [JBool False]"
  using refresh_tri_state
    [where uargs = sample_update_args and dargs = sample_delete_args
       and client = "answering_client (query_result_with [])"]
  by (simp add: update_by_query_calls update_by_query_params_def sample_update_args_def
      refresh_schema_def record_val_def conflicts_val_def conflicts_name_def num_val_def)

text \<open>
  Claim C9. The bulk tool's arguments are the operations and an optional pipeline; every
  request its handler sends to the store (one when the operations pass validation, none
  otherwise) has \<open>refresh\<close> equal to true. The update-by-query and delete-by-query
  handlers send the \<open>refresh\<close> value they were given.
\<close>

theorem bulk_refresh_forced:
  "map (\<lambda>p. get_prop p ''refresh'') (calls (bulk_handler args client)) =
     (if validate_operations 0 (operations args) = None then [JBool True] else [])
   \<and> map (\<lambda>p. get_prop p ''refresh'')
       (calls (update_by_query_handler (uargs\<lparr>ubq_refresh := b\<rparr>) uclient)) = [JBool b]
   \<and> map (\<lambda>p. get_prop p ''refresh'')
       (calls (delete_by_query_handler (dargs\<lparr>dbq_refresh := b\<rparr>) dclient)) = [JBool b]"
  by (simp add: bulk_calls update_by_query_calls delete_by_query_calls update_by_query_refresh
      delete_by_query_refresh bulk_request_refresh)

theorem bulk_refresh_forced_witness:
  "map (\<lambda>p. get_prop p ''refresh'')
     (calls (bulk_handler sample_bulk_args (answering_client (bulk_response_with [created_item]))))
     = [JBool True]
   \<and> map (\<lambda>p. get_prop p ''refresh'')
       (calls (update_by_query_handler (sample_update_args\<lparr>ubq_refresh := False\<rparr>)
          (answering_client (query_result_with [])))) = [JBool False]"
  using bulk_refresh_forced
    [where args = sample_bulk_args
       and client = "answering_client (bulk_response_with [created_item])"
       and uargs = sample_update_args and b = False
       and uclient = "answering_client (query_result_with [])"]
  by (simp add: sample_bulk_args_def string_val_def record_val_def)

text \<open>
  Claim C10. \<open>addDocument\<close> builds the same request for an empty id as for an absent
  one, an object with \<open>index\<close> and \<open>document\<close> and no \<open>id\<close> key, and
  \<open>add_document\<close> sends exactly that request; a non-empty id is passed as \<open>id\<close>
  unchanged. In bulk compilation the action metadata of an operation with an empty id is
  that of one with no id, \<open>_index\<close> alone, so an index or create operation with an empty
  id passes validation and is sent without \<open>_id\<close>; a non-empty id is kept as \<open>_id\<close>.
\<close>

theorem empty_id_omitted:
  "ElasticsearchService_addDocument index document (Some []) =
     ElasticsearchService_addDocument index document None
   \<and> ElasticsearchService_addDocument index document None =
     JObj [(''index'', JStr index), (''document'', JObj document)]
   \<and> (ident \<noteq> [] \<longrightarrow>
        ElasticsearchService_addDocument index document (Some ident) =
        JObj [(''index'', JStr index), (''document'', JObj document), (''id'', JStr ident)])
   \<and> calls (add_document_handler
        \<lparr>add_index = index, add_id = i, add_document_body = document\<rparr> client) =
      [ElasticsearchService_addDocument index document i]
   \<and> add_document_handler
        \<lparr>add_index = index, add_id = Some [], add_document_body = document\<rparr> client =
      add_document_handler
        \<lparr>add_index = index, add_id = None, add_document_body = document\<rparr> client
   \<and> actionMeta (opn\<lparr>op_id := Some []\<rparr>) = actionMeta (opn\<lparr>op_id := None\<rparr>)
   \<and> actionMeta (opn\<lparr>op_id := None\<rparr>) = JObj [(''_index'', JStr (op_index opn))]
   \<and> (ident \<noteq> [] \<longrightarrow>
        actionMeta (opn\<lparr>op_id := Some ident\<rparr>) =
        JObj [(''_index'', JStr (op_index opn)), (''_id'', JStr ident)])
   \<and> ((op_action opn = Index \<or> op_action opn = Create) \<and> op_id opn = Some []
        \<and> op_document opn = Some d \<longrightarrow>
        validate_operations 0 [opn] = None \<and>
        build_bulkOperations [] [opn] =
          [JObj [(action_name (op_action opn), JObj [(''_index'', JStr (op_index opn))])],
           JObj d])"
  by (auto simp add: ElasticsearchService_addDocument_def string_val_def actionMeta_def
      add_document_handler_def add_document_body_run_def try_catch_def Let_def op_entries_def
      record_val_def split: sum.split)

theorem empty_id_omitted_witness:
  "ElasticsearchService_addDocument ''a'' [(''x'', JNum 1)] (Some ''doc1'') =
     JObj [(''index'', JStr ''a''), (''document'', JObj [(''x'', JNum 1)]), (''id'', JStr ''doc1'')]
   \<and> calls (add_document_handler
        \<lparr>add_index = ''a'', add_id = Some [], add_document_body = [(''x'', JNum 1)]\<rparr>
        (answering_client (JObj [(''_id'', JStr ''generated'')]))) =
      [JObj [(''index'', JStr ''a''), (''document'', JObj [(''x'', JNum 1)])]]
   \<and> build_bulkOperations []
        [\<lparr>op_action = Index, op_index = ''a'', op_id = Some [],
          op_document = Some [(''x'', JNum 1)]\<rparr>] =
      [JObj [(''index'', JObj [(''_index'', JStr ''a'')])], JObj [(''x'', JNum 1)]]
   \<and> actionMeta
        \<lparr>op_action = Create, op_index = ''a'', op_id = Some ''doc1'',
         op_document = Some [(''x'', JNum 1)]\<rparr> =
      JObj [(''_index'', JStr ''a''), (''_id'', JStr ''doc1'')]"
  using
    empty_id_omitted
      [where index = "''a''" and document = "[(''x'', JNum 1)]" and ident = "''doc1''"
         and i = "Some []"
         and client = "answering_client (JObj [(''_id'', JStr ''generated'')])"
         and opn = "\<lparr>op_action = Index, op_index = ''a'', op_id = Some [],
                     op_document = Some [(''x'', JNum 1)]\<rparr>"
         and d = "[(''x'', JNum 1)]"]
    empty_id_omitted
      [where index = "''a''" and document = "[(''x'', JNum 1)]" and ident = "''doc1''"
         and i = "Some []"
         and client = "answering_client (JObj [(''_id'', JStr ''generated'')])"
         and opn = "\<lparr>op_action = Create, op_index = ''a'', op_id = Some ''doc1'',
                     op_document = Some [(''x'', JNum 1)]\<rparr>"
         and d = "[(''x'', JNum 1)]"]
  by (simp add: action_name_def)

section \<open>Failure lines of the query-scoped reports\<close>

text \<open>
  Claim C8, evaluated on a failure whose id is absent and whose cause carries the reason
  \<open>conflict\<close>. The update-by-query report renders the id as \<open>undefined\<close>; the
  delete-by-query line for the same failure renders it as \<open>unknown\<close>.
\<close>

theorem update_failure_line_absent_id:
  "update_by_query_resultText ''a''
     \<lparr>r_took = 12, r_total = 10, r_updated = 9, r_deleted = None,
      r_failures = Some [\<lparr>failure_id = None,
                          failure_cause = Some \<lparr>cause_type = None,
                                                cause_reason = Some ''conflict''\<rparr>\<rparr>],
      r_version_conflicts = None, r_task = None\<rparr> =
     ''Update by query completed successfully in index '' @ [CHR 0x27] @ ''a'' @ [CHR 0x27] @
     '':\<newline>- Total documents processed: 10\<newline>- Documents updated: 9\<newline>'' @
     ''- Documents that failed: 1\<newline>- Time taken: 12ms\<newline>\<newline>Failures:\<newline>'' @
     ''1. ID: undefined, Reason: conflict''
   \<and> update_failure_line 0
       \<lparr>failure_id = None,
        failure_cause = Some \<lparr>cause_type = None, cause_reason = Some ''conflict''\<rparr>\<rparr>
     = ''\<newline>1. ID: undefined, Reason: conflict''
   \<and> delete_failure_line 0
       \<lparr>failure_id = None,
        failure_cause = Some \<lparr>cause_type = None, cause_reason = Some ''conflict''\<rparr>\<rparr>
     = ''\<newline>1. ID: unknown, Reason: conflict''"
  by (simp add: update_by_query_resultText_def append_failures_def report_eval)

end
